theory Spec2Isabelle
  imports Main
begin

section \<open>Values of the pact server\<close>

text \<open>
  The service (\<^verbatim>\<open>src/index.ts\<close>) keeps pacts in an in-memory object and serves three
  HTTP routes. A field read from a JSON request body or from the query string is either
  absent (JavaScript's \<^verbatim>\<open>undefined\<close>) or a string: the type \<^verbatim>\<open>Pact\<close> of the source
  declares every field a string, and no route validates the body.
\<close>

datatype prim = Undefined | Str string

text \<open>
  \<^verbatim>\<open>type Pact = { name, terms, address, transactionHash, blockHash }\<close>. The source's
  Pact has no block number.
\<close>

record Pact =
  name :: prim
  terms :: prim
  address :: prim
  transactionHash :: prim
  blockHash :: prim

text \<open>
  What a property read on the store object can yield: a primitive, a stored Pact, or
  one of the objects every object literal inherits (\<^verbatim>\<open>Object.prototype\<close> itself and
  its built-in functions, named by their property).
\<close>

datatype jsval = Prim prim | PactObj Pact | ObjectPrototype | Builtin string

text \<open>
  A JSON object with string fields (\<^verbatim>\<open>req.body\<close>, \<^verbatim>\<open>req.query\<close>); reading a field
  that is absent gives \<^verbatim>\<open>undefined\<close>.
\<close>

type_synonym json_object = "string \<rightharpoonup> string"

definition field :: "json_object \<Rightarrow> string \<Rightarrow> prim" where
  "field obj k = (case obj k of None \<Rightarrow> Undefined | Some s \<Rightarrow> Str s)"

text \<open>
  A value used as a property key is converted to a string: \<^verbatim>\<open>undefined\<close> becomes the
  key \<^verbatim>\<open>"undefined"\<close>.
\<close>

fun property_key :: "prim \<Rightarrow> string" where
  "property_key Undefined = ''undefined''"
| "property_key (Str s) = s"

text \<open>JavaScript's \<^verbatim>\<open>!v\<close>: \<^verbatim>\<open>undefined\<close> and the empty string are falsy, every object is truthy.\<close>

fun falsy :: "jsval \<Rightarrow> bool" where
  "falsy (Prim Undefined) = True"
| "falsy (Prim (Str s)) = (s = [])"
| "falsy (PactObj p) = False"
| "falsy ObjectPrototype = False"
| "falsy (Builtin f) = False"

section \<open>The store: class DB\<close>

text \<open>
  \<^verbatim>\<open>private db: { [key: string]: Pact }\<close>, created by \<^verbatim>\<open>this.db = {}\<close>. An object
  literal has own properties and a prototype. The prototype is \<^verbatim>\<open>Object.prototype\<close>
  (\<open>proto = None\<close>) until an assignment to the key \<^verbatim>\<open>__proto__\<close> replaces it by the
  assigned Pact object (\<open>proto = Some p\<close>, whose own prototype is \<^verbatim>\<open>Object.prototype\<close>).
\<close>

record DB =
  own :: "string \<rightharpoonup> Pact"
  proto :: "Pact option"

definition DB_new :: DB where
  "DB_new = \<lparr>own = Map.empty, proto = None\<rparr>"

text \<open>The function-valued properties of \<^verbatim>\<open>Object.prototype\<close>.\<close>

definition object_prototype_functions :: "string list" where
  "object_prototype_functions =
     [''constructor'', ''__defineGetter__'', ''__defineSetter__'', ''hasOwnProperty'',
      ''__lookupGetter__'', ''__lookupSetter__'', ''isPrototypeOf'', ''propertyIsEnumerable'',
      ''toString'', ''valueOf'', ''toLocaleString'']"

definition object_prototype_get :: "string \<Rightarrow> jsval" where
  "object_prototype_get k =
     (if k \<in> set object_prototype_functions then Builtin k else Prim Undefined)"

text \<open>The own properties of a Pact object built by the literal of the POST handler.\<close>

definition pact_property :: "Pact \<Rightarrow> string \<Rightarrow> prim option" where
  "pact_property p k =
     (if k = ''name'' then Some (name p)
      else if k = ''terms'' then Some (terms p)
      else if k = ''address'' then Some (address p)
      else if k = ''transactionHash'' then Some (transactionHash p)
      else if k = ''blockHash'' then Some (blockHash p)
      else None)"

text \<open>
  \<^verbatim>\<open>async get(key) { return this.db[key] }\<close>: an own property first; the key
  \<^verbatim>\<open>__proto__\<close> reads the prototype; any other key is looked up along the prototype
  chain. The read does not change the store.
\<close>

definition DB_get :: "DB \<Rightarrow> string \<Rightarrow> jsval" where
  "DB_get d key =
     (case own d key of
        Some p \<Rightarrow> PactObj p
      | None \<Rightarrow>
          if key = ''__proto__''
          then (case proto d of None \<Rightarrow> ObjectPrototype | Some q \<Rightarrow> PactObj q)
          else (case proto d of
                  None \<Rightarrow> object_prototype_get key
                | Some q \<Rightarrow>
                    (case pact_property q key of
                       Some v \<Rightarrow> Prim v
                     | None \<Rightarrow> object_prototype_get key)))"

text \<open>
  \<^verbatim>\<open>async set(key, value) { this.db[key] = value }\<close>, for a Pact object as value (the
  only caller passes one): the key \<^verbatim>\<open>__proto__\<close> sets the prototype, any other key
  creates or replaces an own property.
\<close>

definition DB_set :: "DB \<Rightarrow> string \<Rightarrow> Pact \<Rightarrow> DB" where
  "DB_set d key v =
     (if key = ''__proto__'' \<and> own d key = None
      then d\<lparr>proto := Some v\<rparr>
      else d\<lparr>own := (own d)(key \<mapsto> v)\<rparr>)"

section \<open>The server: state, options, routes and the loop body\<close>

text \<open>\<^verbatim>\<open>type State = { blockNumber: number, db: DB }\<close>; the number is never assigned.\<close>

record State =
  blockNumber :: "int option"
  db :: DB

text \<open>\<^verbatim>\<open>type Options = { rpcProvider: Provider, pactFactoryAddress: string }\<close>.\<close>

record 'p Options =
  rpcProvider :: 'p
  pactFactoryAddress :: string

record Request =
  body :: json_object
  query :: json_object

text \<open>The argument of \<^verbatim>\<open>res.json(...)\<close>: none, the literal \<^verbatim>\<open>{ok: b}\<close>, or a value.\<close>

datatype json_arg = NoValue | OkObj bool | Value jsval

record Response =
  status :: nat
  json :: json_arg

text \<open>\<^verbatim>\<open>router.get('/status', ...)\<close>: the request is not read.\<close>

definition get_status :: "Request \<Rightarrow> State \<Rightarrow> Response \<times> State" where
  "get_status req st = (\<lparr>status = 200, json = OkObj True\<rparr>, st)"

text \<open>The object literal \<^verbatim>\<open>const pact: Pact = {...}\<close> of the POST handler.\<close>

definition body_pact :: "Request \<Rightarrow> Pact" where
  "body_pact req =
     \<lparr>name = field (body req) ''name'',
      terms = field (body req) ''terms'',
      address = field (body req) ''address'',
      transactionHash = field (body req) ''transactionHash'',
      blockHash = field (body req) ''blockHash''\<rparr>"

text \<open>\<^verbatim>\<open>router.post('/pact', ...)\<close>: \<^verbatim>\<open>await this.state.db.set(pact.address, pact)\<close>, then 200.\<close>

definition post_pact :: "Request \<Rightarrow> State \<Rightarrow> Response \<times> State" where
  "post_pact req st =
     (let pact = body_pact req
      in (\<lparr>status = 200, json = NoValue\<rparr>,
          st\<lparr>db := DB_set (db st) (property_key (address pact)) pact\<rparr>))"

text \<open>\<^verbatim>\<open>router.get('/pact', ...)\<close>: 404 when the value read is falsy, else 200 with it.\<close>

definition get_pact :: "Request \<Rightarrow> State \<Rightarrow> Response \<times> State" where
  "get_pact req st =
     (let addr = field (query req) ''address'';
          pact = DB_get (db st) (property_key addr)
      in if falsy pact
         then (\<lparr>status = 404, json = NoValue\<rparr>, st)
         else (\<lparr>status = 200, json = Value pact\<rparr>, st))"

text \<open>
  \<^verbatim>\<open>async main(): Promise<void> { }\<close>: the body holds comments only, so a tick of the
  service loop returns the state it was given, whatever the options are.
\<close>

definition Server_main :: "'p Options \<Rightarrow> State \<Rightarrow> State" where
  "Server_main opts st = st"

text \<open>
  The target height the specification gives for a sync tick, in its own words:
  \<open>min(headHeight() - confirmationDepth, lastScannedBlock + maxBatchBlocks)\<close>. The source
  computes no such value; the definition serves to compare the two.
\<close>

definition spec_target :: "int \<Rightarrow> int \<Rightarrow> int \<Rightarrow> int \<Rightarrow> int" where
  "spec_target headHeight confirmationDepth lastScannedBlock maxBatchBlocks =
     min (headHeight - confirmationDepth) (lastScannedBlock + maxBatchBlocks)"

section \<open>Basic facts about the store\<close>

lemma DB_get_set_same: "DB_get (DB_set d k v) k = PactObj v"
  by (simp add: DB_get_def DB_set_def)

lemma DB_set_set_same: "DB_set (DB_set d k v) k v = DB_set d k v"
  by (auto simp: DB_set_def)

lemma DB_set_overwrite: "DB_set (DB_set d k v) k w = DB_set d k w"
  by (auto simp: DB_set_def)

lemma post_pact_lookup:
  "DB_get (db (snd (post_pact req st))) (property_key (field (body req) ''address''))
     = PactObj (body_pact req)"
  by (simp add: post_pact_def Let_def DB_get_set_same body_pact_def)

lemma Server_main_id: "Server_main opts st = st"
  by (simp add: Server_main_def)

lemma DB_get_new_plain:
  "key \<noteq> ''__proto__'' \<Longrightarrow> key \<notin> set object_prototype_functions
     \<Longrightarrow> DB_get DB_new key = Prim Undefined"
  by (simp add: DB_get_def DB_new_def object_prototype_get_def)

lemma get_pact_stored:
  "DB_get (db st) (property_key (field (query req) ''address'')) = PactObj p
     \<Longrightarrow> get_pact req st = (\<lparr>status = 200, json = Value (PactObj p)\<rparr>, st)"
  by (simp add: get_pact_def Let_def)

lemma get_pact_undefined:
  "DB_get (db st) (property_key (field (query req) ''address'')) = Prim Undefined
     \<Longrightarrow> get_pact req st = (\<lparr>status = 404, json = NoValue\<rparr>, st)"
  by (simp add: get_pact_def Let_def)

lemma get_pact_after_post:
  assumes "field (query g) ''address'' = field (body req) ''address''"
  shows "get_pact g (snd (post_pact req st))
     = (\<lparr>status = 200, json = Value (PactObj (body_pact req))\<rparr>, snd (post_pact req st))"
proof -
  have "DB_get (db (snd (post_pact req st))) (property_key (field (query g) ''address''))
      = PactObj (body_pact req)"
    using post_pact_lookup [of req st] assms by simp
  then show ?thesis
    by (rule get_pact_stored)
qed

lemma get_pact_state: "snd (get_pact req st) = st"
  by (simp add: get_pact_def Let_def)

lemma post_pact_twice:
  "snd (post_pact req (snd (post_pact req st))) = snd (post_pact req st)"
  by (simp add: post_pact_def Let_def DB_set_set_same)

lemma Server_main_funpow: "(Server_main opts ^^ n) st = st"
  by (induction n) (simp_all add: Server_main_id)

section \<open>The write reached from a pact submission\<close>

text \<open>
  Claim C1, as stated: a store write reached from a pact submission leaves non-empty
  provenance fields of the stored Pact unchanged. The handler of POST /pact passes the
  whole submitted record to \<open>DB_set\<close>, which replaces the entry: after a submission
  with transaction hash 0x1 and block hash 0xb1 for address 0xA, a second submission
  with 0x2 and 0xb2 for the same address leaves 0x2 and 0xb2 stored.
\<close>

theorem provenance_overwritten_counterexample:
  "DB_get (db (snd (post_pact
       \<lparr>body = [''address'' \<mapsto> ''0xA'', ''transactionHash'' \<mapsto> ''0x1'',
                ''blockHash'' \<mapsto> ''0xb1''],
        query = Map.empty\<rparr>
       \<lparr>blockNumber = None, db = DB_new\<rparr>))) ''0xA''
     = PactObj \<lparr>name = Undefined, terms = Undefined, address = Str ''0xA'',
                transactionHash = Str ''0x1'', blockHash = Str ''0xb1''\<rparr>
   \<and> DB_get (db (snd (post_pact
       \<lparr>body = [''address'' \<mapsto> ''0xA'', ''transactionHash'' \<mapsto> ''0x2'',
                ''blockHash'' \<mapsto> ''0xb2''],
        query = Map.empty\<rparr>
       (snd (post_pact
         \<lparr>body = [''address'' \<mapsto> ''0xA'', ''transactionHash'' \<mapsto> ''0x1'',
                  ''blockHash'' \<mapsto> ''0xb1''],
          query = Map.empty\<rparr>
         \<lparr>blockNumber = None, db = DB_new\<rparr>))))) ''0xA''
     = PactObj \<lparr>name = Undefined, terms = Undefined, address = Str ''0xA'',
                transactionHash = Str ''0x2'', blockHash = Str ''0xb2''\<rparr>"
  by (simp add: post_pact_def body_pact_def field_def DB_set_def DB_get_def DB_new_def Let_def)

text \<open>
  Claim C1, amended: the store write reached from a pact submission stores the submitted
  record as a whole under the submitted address, whether or not a Pact was stored there
  before: a lookup of that address then returns exactly the submitted Pact, whose
  transaction hash and block hash are the submitted ones, empty or not.
\<close>

theorem post_pact_replaces_stored_pact:
  "DB_get (db (snd (post_pact req st))) (property_key (field (body req) ''address''))
     = PactObj (body_pact req)
   \<and> transactionHash (body_pact req) = field (body req) ''transactionHash''
   \<and> blockHash (body_pact req) = field (body req) ''blockHash''"
proof -
  have "transactionHash (body_pact req) = field (body req) ''transactionHash''"
    by (simp add: body_pact_def)
  moreover have "blockHash (body_pact req) = field (body req) ''blockHash''"
    by (simp add: body_pact_def)
  ultimately show ?thesis
    using post_pact_lookup [of req st] by simp
qed

text \<open>
  Claim C2, as stated: metadata first and provenance second gives the same stored Pact
  as provenance first and metadata second. For address 0xA, with the metadata
  submission carrying name and terms and the provenance submission carrying the two
  hashes, the first order ends with the provenance record (name and terms blank), the
  second with the metadata record (hashes blank).
\<close>

theorem merge_order_counterexample:
  "DB_get (db (snd (post_pact
       \<lparr>body = [''address'' \<mapsto> ''0xA'', ''name'' \<mapsto> '''', ''terms'' \<mapsto> '''',
                ''transactionHash'' \<mapsto> ''0x1'', ''blockHash'' \<mapsto> ''0xb1''],
        query = Map.empty\<rparr>
       (snd (post_pact
         \<lparr>body = [''address'' \<mapsto> ''0xA'', ''name'' \<mapsto> ''Lease'', ''terms'' \<mapsto> ''12mo'',
                  ''transactionHash'' \<mapsto> '''', ''blockHash'' \<mapsto> ''''],
          query = Map.empty\<rparr>
         \<lparr>blockNumber = None, db = DB_new\<rparr>))))) ''0xA''
     = PactObj \<lparr>name = Str '''', terms = Str '''', address = Str ''0xA'',
                transactionHash = Str ''0x1'', blockHash = Str ''0xb1''\<rparr>
   \<and> DB_get (db (snd (post_pact
       \<lparr>body = [''address'' \<mapsto> ''0xA'', ''name'' \<mapsto> ''Lease'', ''terms'' \<mapsto> ''12mo'',
                ''transactionHash'' \<mapsto> '''', ''blockHash'' \<mapsto> ''''],
        query = Map.empty\<rparr>
       (snd (post_pact
         \<lparr>body = [''address'' \<mapsto> ''0xA'', ''name'' \<mapsto> '''', ''terms'' \<mapsto> '''',
                  ''transactionHash'' \<mapsto> ''0x1'', ''blockHash'' \<mapsto> ''0xb1''],
          query = Map.empty\<rparr>
         \<lparr>blockNumber = None, db = DB_new\<rparr>))))) ''0xA''
     = PactObj \<lparr>name = Str ''Lease'', terms = Str ''12mo'', address = Str ''0xA'',
                transactionHash = Str '''', blockHash = Str ''''\<rparr>"
  by (simp add: post_pact_def body_pact_def field_def DB_set_def DB_get_def DB_new_def Let_def)

text \<open>
  Claim C2, amended: of two submissions for the same address, the one made second is
  what stays stored, as a whole; so the two orders end with the same stored Pact exactly
  when the two submissions carry the same five fields.
\<close>

theorem submission_order_last_wins:
  assumes "property_key (field (body r1) ''address'') = k"
    and "property_key (field (body r2) ''address'') = k"
  shows "DB_get (db (snd (post_pact r2 (snd (post_pact r1 st))))) k = PactObj (body_pact r2)
     \<and> DB_get (db (snd (post_pact r1 (snd (post_pact r2 st))))) k = PactObj (body_pact r1)
     \<and> ((DB_get (db (snd (post_pact r2 (snd (post_pact r1 st))))) k
          = DB_get (db (snd (post_pact r1 (snd (post_pact r2 st))))) k)
         = (body_pact r1 = body_pact r2))"
proof -
  have a: "DB_get (db (snd (post_pact r2 (snd (post_pact r1 st))))) k = PactObj (body_pact r2)"
    using post_pact_lookup [of r2 "snd (post_pact r1 st)"] assms(2) by simp
  have b: "DB_get (db (snd (post_pact r1 (snd (post_pact r2 st))))) k = PactObj (body_pact r1)"
    using post_pact_lookup [of r1 "snd (post_pact r2 st)"] assms(1) by simp
  show ?thesis
    unfolding a b by auto
qed

theorem submission_order_last_wins_witness:
  "property_key (field (body
       \<lparr>body = [''address'' \<mapsto> ''0xA'', ''name'' \<mapsto> ''Lease''], query = Map.empty\<rparr>)
       ''address'') = ''0xA''
   \<and> property_key (field (body
       \<lparr>body = [''address'' \<mapsto> ''0xA'', ''transactionHash'' \<mapsto> ''0x1''], query = Map.empty\<rparr>)
       ''address'') = ''0xA''
   \<and> DB_get (db (snd (post_pact
       \<lparr>body = [''address'' \<mapsto> ''0xA'', ''transactionHash'' \<mapsto> ''0x1''], query = Map.empty\<rparr>
       (snd (post_pact
         \<lparr>body = [''address'' \<mapsto> ''0xA'', ''name'' \<mapsto> ''Lease''], query = Map.empty\<rparr>
         \<lparr>blockNumber = None, db = DB_new\<rparr>))))) ''0xA''
     = PactObj \<lparr>name = Undefined, terms = Undefined, address = Str ''0xA'',
                transactionHash = Str ''0x1'', blockHash = Undefined\<rparr>"
proof -
  have h1: "property_key (field (body
       \<lparr>body = [''address'' \<mapsto> ''0xA'', ''name'' \<mapsto> ''Lease''], query = Map.empty\<rparr>)
       ''address'') = ''0xA''"
    by (simp add: field_def)
  have h2: "property_key (field (body
       \<lparr>body = [''address'' \<mapsto> ''0xA'', ''transactionHash'' \<mapsto> ''0x1''], query = Map.empty\<rparr>)
       ''address'') = ''0xA''"
    by (simp add: field_def)
  show ?thesis
    using h1 h2 submission_order_last_wins [OF h1 h2, of "\<lparr>blockNumber = None, db = DB_new\<rparr>"]
    by (simp add: body_pact_def field_def)
qed

text \<open>
  Claim C3: the store write reached from a pact submission is idempotent. Submitting
  the same body twice leaves the state that one submission leaves, and so does writing
  the same Pact under the same key twice with \<open>DB_set\<close>.
\<close>

theorem post_pact_idempotent:
  "snd (post_pact req (snd (post_pact req st))) = snd (post_pact req st)
   \<and> DB_set (DB_set d k p) k p = DB_set d k p
   \<and> DB_get (db (snd (post_pact req (snd (post_pact req st)))))
        (property_key (field (body req) ''address''))
      = DB_get (db (snd (post_pact req st))) (property_key (field (body req) ''address''))"
  by (simp add: post_pact_twice DB_set_set_same)

text \<open>
  Claim C4: a submission creates the Pact under its address whatever the store held
  there, and of two submissions for the same address the name and terms stored at the
  end are those of the second.
\<close>

theorem post_pact_last_writer_wins:
  assumes "property_key (field (body r1) ''address'') = k"
    and "property_key (field (body r2) ''address'') = k"
  shows "DB_get (db (snd (post_pact r1 st))) k = PactObj (body_pact r1)
     \<and> (\<exists>p. DB_get (db (snd (post_pact r2 (snd (post_pact r1 st))))) k = PactObj p
            \<and> name p = field (body r2) ''name''
            \<and> terms p = field (body r2) ''terms'')"
proof -
  have "DB_get (db (snd (post_pact r1 st))) k = PactObj (body_pact r1)"
    using post_pact_lookup [of r1 st] assms(1) by simp
  moreover have "DB_get (db (snd (post_pact r2 (snd (post_pact r1 st))))) k
      = PactObj (body_pact r2)"
    using post_pact_lookup [of r2 "snd (post_pact r1 st)"] assms(2) by simp
  moreover have "name (body_pact r2) = field (body r2) ''name''"
    by (simp add: body_pact_def)
  moreover have "terms (body_pact r2) = field (body r2) ''terms''"
    by (simp add: body_pact_def)
  ultimately show ?thesis by simp
qed

theorem post_pact_last_writer_wins_witness:
  "property_key (field (body
       \<lparr>body = [''address'' \<mapsto> ''0xB'', ''name'' \<mapsto> ''First'', ''terms'' \<mapsto> ''old''],
        query = Map.empty\<rparr>) ''address'') = ''0xB''
   \<and> property_key (field (body
       \<lparr>body = [''address'' \<mapsto> ''0xB'', ''name'' \<mapsto> ''Second'', ''terms'' \<mapsto> ''new''],
        query = Map.empty\<rparr>) ''address'') = ''0xB''
   \<and> (\<exists>p. DB_get (db (snd (post_pact
         \<lparr>body = [''address'' \<mapsto> ''0xB'', ''name'' \<mapsto> ''Second'', ''terms'' \<mapsto> ''new''],
          query = Map.empty\<rparr>
         (snd (post_pact
           \<lparr>body = [''address'' \<mapsto> ''0xB'', ''name'' \<mapsto> ''First'', ''terms'' \<mapsto> ''old''],
            query = Map.empty\<rparr>
           \<lparr>blockNumber = None, db = DB_new\<rparr>))))) ''0xB'' = PactObj p
        \<and> name p = Str ''Second'' \<and> terms p = Str ''new'')"
proof -
  have h1: "property_key (field (body
       \<lparr>body = [''address'' \<mapsto> ''0xB'', ''name'' \<mapsto> ''First'', ''terms'' \<mapsto> ''old''],
        query = Map.empty\<rparr>) ''address'') = ''0xB''"
    by (simp add: field_def)
  have h2: "property_key (field (body
       \<lparr>body = [''address'' \<mapsto> ''0xB'', ''name'' \<mapsto> ''Second'', ''terms'' \<mapsto> ''new''],
        query = Map.empty\<rparr>) ''address'') = ''0xB''"
    by (simp add: field_def)
  show ?thesis
    using h1 h2
      post_pact_last_writer_wins [OF h1 h2, of "\<lparr>blockNumber = None, db = DB_new\<rparr>"]
    by (simp add: field_def)
qed

section \<open>Reading a pact\<close>

text \<open>
  Claim C5: GET /pact answers 404 for an address under which no Pact is stored. On a
  freshly created store nothing is stored, yet for the address \<^verbatim>\<open>constructor\<close> the
  read \<^verbatim>\<open>this.db[key]\<close> finds the function every object literal inherits, which is
  truthy, and the handler answers 200 with it. The store is left as it was.
\<close>

theorem get_pact_inherited_property:
  "get_pact \<lparr>body = Map.empty, query = [''address'' \<mapsto> ''constructor'']\<rparr>
       \<lparr>blockNumber = None, db = DB_new\<rparr>
     = (\<lparr>status = 200, json = Value (Builtin ''constructor'')\<rparr>,
        \<lparr>blockNumber = None, db = DB_new\<rparr>)"
  by (simp add: get_pact_def field_def DB_get_def DB_new_def object_prototype_get_def
      object_prototype_functions_def)

section \<open>The loop body\<close>

text \<open>
  Claim C6, as stated: from cursor 100, with the chain head at 110 and one PactCreated
  log at block 105 for address 0xABC, one tick leaves the cursor at 108 and a Pact for
  0xABC in the store. The tick is \<open>Server_main\<close>, which reads neither the chain nor
  the state: the cursor is not 108 afterwards and the store holds nothing for 0xABC.
  The chain is given here as the provider, a pair of the head height and the logs.
\<close>

theorem tick_scenario_counterexample:
  "blockNumber (Server_main
       \<lparr>rpcProvider = (110 :: int, [(105 :: int, ''0xABC'')]), pactFactoryAddress = ''0xFAC''\<rparr>
       \<lparr>blockNumber = Some 100, db = DB_new\<rparr>) \<noteq> Some 108
   \<and> DB_get (db (Server_main
       \<lparr>rpcProvider = (110 :: int, [(105 :: int, ''0xABC'')]), pactFactoryAddress = ''0xFAC''\<rparr>
       \<lparr>blockNumber = Some 100, db = DB_new\<rparr>)) ''0xABC'' = Prim Undefined"
  by (simp add: Server_main_def DB_get_def DB_new_def object_prototype_get_def
      object_prototype_functions_def)

text \<open>
  Claim C6, amended: in that scenario, whatever the provider and the factory address
  are, one tick leaves the state as it was: the cursor stays at 100, the store stays
  empty, and GET /pact for 0xABC answers 404 afterwards.
\<close>

theorem tick_scenario_unchanged:
  "Server_main opts \<lparr>blockNumber = Some 100, db = DB_new\<rparr>
     = \<lparr>blockNumber = Some 100, db = DB_new\<rparr>
   \<and> fst (get_pact \<lparr>body = Map.empty, query = [''address'' \<mapsto> ''0xABC'']\<rparr>
        (Server_main opts \<lparr>blockNumber = Some 100, db = DB_new\<rparr>))
     = \<lparr>status = 404, json = NoValue\<rparr>"
  by (simp add: Server_main_id get_pact_def field_def DB_get_def DB_new_def
      object_prototype_get_def object_prototype_functions_def)

text \<open>
  Claim C7, as stated: after each tick the cursor equals the target of that tick when
  the target exceeds the previous cursor. With head 110, confirmation depth 2, cursor
  100 and batch size 50 the target of the specification is 108, above 100, and the
  cursor after the tick is not 108.
\<close>

theorem cursor_target_counterexample:
  "100 < spec_target 110 2 100 50
   \<and> blockNumber (Server_main
       \<lparr>rpcProvider = (110 :: int, [] :: (int \<times> string) list), pactFactoryAddress = ''0xFAC''\<rparr>
       \<lparr>blockNumber = Some 100, db = DB_new\<rparr>) \<noteq> Some (spec_target 110 2 100 50)"
  by (simp add: Server_main_def spec_target_def)

text \<open>
  Claim C7, amended: across every sequence of n ticks the cursor is the one the
  sequence started with (so it never decreases), and so is the store; no tick moves the
  cursor to a target.
\<close>

theorem cursor_constant_across_ticks:
  "blockNumber ((Server_main opts ^^ n) st) = blockNumber st
   \<and> db ((Server_main opts ^^ n) st) = db st"
  by (simp add: Server_main_funpow)

section \<open>Liveness route\<close>

text \<open>
  Claim C9: GET /status answers 200 with the body \<^verbatim>\<open>{ok: true}\<close> for every request
  and every state, and leaves the state as it is.
\<close>

theorem get_status_ok:
  "fst (get_status req st) = \<lparr>status = 200, json = OkObj True\<rparr>
   \<and> snd (get_status req st) = st"
  by (simp add: get_status_def)

section \<open>Keys the store never wrote\<close>

text \<open>
  Claim C10: a read of a key that was never written finds nothing. On the store as
  the constructor leaves it, the key \<^verbatim>\<open>constructor\<close> reads an inherited function and
  the key \<^verbatim>\<open>__proto__\<close> reads the prototype object; and after a write under the key
  \<^verbatim>\<open>__proto__\<close>, the key \<^verbatim>\<open>name\<close>, never written, reads the name of that Pact.
\<close>

theorem DB_get_unwritten_key:
  "DB_get DB_new ''constructor'' = Builtin ''constructor''
   \<and> DB_get DB_new ''__proto__'' = ObjectPrototype
   \<and> DB_get (DB_set DB_new ''__proto__''
        \<lparr>name = Str ''Lease'', terms = Str ''12mo'', address = Str ''__proto__'',
         transactionHash = Str ''0x1'', blockHash = Str ''0xb1''\<rparr>) ''name''
     = Prim (Str ''Lease'')"
  by (simp add: DB_get_def DB_set_def DB_new_def object_prototype_get_def
      object_prototype_functions_def pact_property_def)


end
